theory Spec2Isabelle
  imports Complex_Main
begin

section \<open>Python values used by the feature extractors\<close>

text \<open>
  Exceptions are values. \<open>PyannoteFeatureExtractionError\<close> wraps the \<open>IOError\<close> of the
  audio reader; the three \<open>assert\<close> statements of the source are told apart by their site.
\<close>

datatype assert_site = DurationMismatch | StepMismatch | AddFeatureRejected

datatype error =
    PyannoteFeatureExtractionError string
  | AttributeError
  | AssertionError assert_site
  | IndexError
  | KeyError string
  | ValueError
  | ZeroDivisionError

text \<open>
  A Python float is an IEEE double. A finite double is kept as the rational number it
  denotes. A float literal, the conversion of an integer and the product of two floats
  round the exact value to the nearest double, ties to the even significand of 53 bits
  (\<open>to_double\<close>); the exponent is bounded below, as for the subnormal doubles, and not
  above: values beyond the range of a double are outside the model. Feature data has one
  more value, NaN, which the code tests for. \<open>int(x)\<close> on a float truncates toward zero.
\<close>

datatype fnum = Num rat | NaN

definition py_int :: "rat \<Rightarrow> int" where
  "py_int x = (if 0 \<le> x then \<lfloor>x\<rfloor> else \<lceil>x\<rceil>)"

function bit_length :: "int \<Rightarrow> int" where
  "bit_length n = (if n \<le> 0 then 0 else 1 + bit_length (n div 2))"
  by pat_completeness auto
termination
  by (relation "measure nat") auto

declare bit_length.simps [simp del]

definition pow2 :: "int \<Rightarrow> rat" where
  "pow2 k = (if 0 \<le> k then 2 ^ nat k else 1 / 2 ^ nat (- k))"

definition round_half_even :: "rat \<Rightarrow> int" where
  "round_half_even x =
     (let f = \<lfloor>x\<rfloor>; d = x - of_int f
      in if d < 1 / 2 then f
         else if 1 / 2 < d then f + 1
         else if even f then f else f + 1)"

text \<open>
  The exponent of the last place of the double nearest to \<open>x\<close>: with \<open>k\<close> the integer part
  of the binary logarithm of \<open>|x|\<close>, it is \<open>k - 52\<close>, and at least \<open>-1074\<close>.
\<close>

definition float_exponent :: "rat \<Rightarrow> int" where
  "float_exponent x =
     (let (p, q) = quotient_of \<bar>x\<bar>;
          k0 = bit_length p - bit_length q;
          k = (if pow2 k0 \<le> \<bar>x\<bar> then k0 else k0 - 1)
      in max (k - 52) (- 1074))"

definition to_double :: "rat \<Rightarrow> rat" where
  "to_double x =
     (if x = 0 then 0
      else let e = float_exponent x
           in of_int (round_half_even (x / pow2 e)) * pow2 e)"

text \<open>\<open>int * float\<close> converts the integer to a float and multiplies the two floats.\<close>

definition float_of_int :: "int \<Rightarrow> rat" where
  "float_of_int i = to_double (of_int i)"

definition float_mul :: "rat \<Rightarrow> rat \<Rightarrow> rat" where
  "float_mul x y = to_double (x * y)"

text \<open>The conversion \<open>%d\<close> of the string formatting operator, on an integer.\<close>

fun str_nat :: "nat \<Rightarrow> string" where
  "str_nat n =
     (if n < 10 then [''0123456789'' ! n]
      else str_nat (n div 10) @ [''0123456789'' ! (n mod 10)])"

declare str_nat.simps [simp del]

definition fmt_d :: "int \<Rightarrow> string" where
  "fmt_d i = (if i < 0 then CHR ''-'' # str_nat (nat (- i)) else str_nat (nat i))"

text \<open>A boolean used as a number (\<open>self.coefs * self.D\<close>, \<open>n_features += self.e\<close>).\<close>

definition py_bool :: "bool \<Rightarrow> int" where
  "py_bool b = (if b then 1 else 0)"

section \<open>The extractor objects\<close>

record SlidingWindow =
  sw_start :: rat
  sw_duration :: rat
  sw_step :: rat

text \<open>
  The data flow of a feature plan: its sample rate and the feature definitions that
  were added, in order. An engine holds the data flow loaded last, if any.
\<close>

record data_flow =
  df_sample_rate :: int
  df_features :: "string list"

text \<open>
  The attributes of \<open>YaafeFeatureExtractor\<close>. The attribute \<open>sample_rate_\<close> does not exist
  until the first call assigns it: \<open>None\<close> is the missing attribute.
\<close>

record YaafeFeatureExtractor =
  duration :: rat
  step :: rat
  sliding_window' :: SlidingWindow
  engine' :: "data_flow option"
  sample_rate' :: "int option"

definition YaafeFeatureExtractor_init :: "rat \<Rightarrow> rat \<Rightarrow> YaafeFeatureExtractor" where
  "YaafeFeatureExtractor_init dur stp =
     \<lparr>duration = dur, step = stp,
      sliding_window' = \<lparr>sw_start = - (1 / 2) * dur, sw_duration = dur, sw_step = stp\<rparr>,
      engine' = None,
      sample_rate' = None\<rparr>"

text \<open>The defaults of the constructors, the literals \<open>0.025\<close> and \<open>0.010\<close>.\<close>

definition default_duration :: rat where
  "default_duration = to_double (25 / 1000)"

definition default_step :: rat where
  "default_step = to_double (10 / 1000)"

record mfcc_params =
  mfcc_e :: bool
  mfcc_coefs :: int
  mfcc_De :: bool
  mfcc_DDe :: bool
  mfcc_D :: bool
  mfcc_DD :: bool

datatype extractor =
    YaafeZCR YaafeFeatureExtractor
  | YaafeMFCC YaafeFeatureExtractor mfcc_params
  | YaafeCompound YaafeFeatureExtractor "extractor list"

fun attrs :: "extractor \<Rightarrow> YaafeFeatureExtractor" where
  "attrs (YaafeZCR b) = b"
| "attrs (YaafeMFCC b p) = b"
| "attrs (YaafeCompound b es) = b"

fun set_attrs :: "YaafeFeatureExtractor \<Rightarrow> extractor \<Rightarrow> extractor" where
  "set_attrs b' (YaafeZCR b) = YaafeZCR b'"
| "set_attrs b' (YaafeMFCC b p) = YaafeMFCC b' p"
| "set_attrs b' (YaafeCompound b es) = YaafeCompound b' es"

definition YaafeZCR_init :: "rat \<Rightarrow> rat \<Rightarrow> extractor" where
  "YaafeZCR_init dur stp = YaafeZCR (YaafeFeatureExtractor_init dur stp)"

definition YaafeMFCC_init :: "rat \<Rightarrow> rat \<Rightarrow> mfcc_params \<Rightarrow> extractor" where
  "YaafeMFCC_init dur stp p = YaafeMFCC (YaafeFeatureExtractor_init dur stp) p"

definition default_mfcc :: mfcc_params where
  "default_mfcc =
     \<lparr>mfcc_e = True, mfcc_coefs = 11, mfcc_De = False, mfcc_DDe = False,
      mfcc_D = False, mfcc_DD = False\<rparr>"

text \<open>
  \<open>YaafeCompound.__init__\<close>: both assertions compare every child with the arguments
  \<open>duration\<close> and \<open>step\<close> of the compound itself.
\<close>

definition YaafeCompound_init :: "extractor list \<Rightarrow> rat \<Rightarrow> rat \<Rightarrow> error + extractor" where
  "YaafeCompound_init extractors dur stp =
     (if \<not> list_all (\<lambda>x. duration (attrs x) = dur) extractors
        then Inl (AssertionError DurationMismatch)
      else if \<not> list_all (\<lambda>x. step (attrs x) = stp) extractors
        then Inl (AssertionError StepMismatch)
      else Inr (YaafeCompound (YaafeFeatureExtractor_init dur stp) extractors))"

section \<open>dimension and definition\<close>

fun dimension :: "extractor \<Rightarrow> int" where
  "dimension (YaafeZCR b) = 1"
| "dimension (YaafeMFCC b p) =
     0 + py_bool (mfcc_e p) + py_bool (mfcc_De p) + py_bool (mfcc_DDe p) + mfcc_coefs p
       + mfcc_coefs p * py_bool (mfcc_D p) + mfcc_coefs p * py_bool (mfcc_DD p)"
| "dimension (YaafeCompound b es) = sum_list (map dimension es)"

definition mfcc_recipe :: "int \<Rightarrow> int \<Rightarrow> int \<Rightarrow> int \<Rightarrow> string" where
  "mfcc_recipe ignore nb blockSize stepSize =
     ''MFCC CepsIgnoreFirstCoeff='' @ fmt_d ignore @ '' CepsNbCoeffs='' @ fmt_d nb
       @ '' blockSize='' @ fmt_d blockSize @ '' stepSize='' @ fmt_d stepSize"

text \<open>
  The comprehension of \<open>YaafeCompound.definition\<close> runs the children in order; the first
  child that raises ends it.
\<close>

fun collect :: "(error + 'a list) list \<Rightarrow> error + 'a list" where
  "collect [] = Inr []"
| "collect (r # rs) =
     (case r of
        Inl err \<Rightarrow> Inl err
      | Inr d \<Rightarrow> (case collect rs of Inl err \<Rightarrow> Inl err | Inr ds \<Rightarrow> Inr (d @ ds)))"

fun definition' :: "extractor \<Rightarrow> error + (string \<times> string) list" where
  "definition' (YaafeZCR b) =
     (case sample_rate' b of
        None \<Rightarrow> Inl AttributeError
      | Some sr \<Rightarrow>
          let blockSize = py_int (float_mul (float_of_int sr) (duration b));
              stepSize = py_int (float_mul (float_of_int sr) (step b))
          in Inr [(''zcr'', ''ZCR blockSize='' @ fmt_d blockSize @ '' stepSize='' @ fmt_d stepSize)])"
| "definition' (YaafeMFCC b p) =
     (case sample_rate' b of
        None \<Rightarrow> Inl AttributeError
      | Some sr \<Rightarrow>
          let blockSize = py_int (float_mul (float_of_int sr) (duration b));
              stepSize = py_int (float_mul (float_of_int sr) (step b));
              d0 = [(''mfcc'',
                     mfcc_recipe (if mfcc_e p then 0 else 1)
                       (mfcc_coefs p + py_bool (mfcc_e p) * 1) blockSize stepSize)];
              d1 = (if mfcc_De p \<or> mfcc_D p
                    then d0 @ [(''mfcc_d'',
                      mfcc_recipe (if mfcc_De p then 0 else 1)
                        (py_bool (mfcc_D p) * mfcc_coefs p + py_bool (mfcc_De p) * 1)
                        blockSize stepSize @ '' > Derivate DOrder=1'')]
                    else d0);
              d2 = (if mfcc_DDe p \<or> mfcc_DD p
                    then d1 @ [(''mfcc_dd'',
                      mfcc_recipe (if mfcc_DDe p then 0 else 1)
                        (py_bool (mfcc_DD p) * mfcc_coefs p + py_bool (mfcc_DDe p) * 1)
                        blockSize stepSize @ '' > Derivate DOrder=2'')]
                    else d1)
          in Inr d2)"
| "definition' (YaafeCompound b es) = collect (map definition' es)"

text \<open>
  \<open>YaafeCompound.__hash__\<close> hashes the tuple of the definition; the hash is kept as the
  tuple it is computed from.
\<close>

datatype hash_value = HashOfTuple "(string \<times> string) list"

definition YaafeCompound_hash :: "YaafeFeatureExtractor \<Rightarrow> extractor list \<Rightarrow> error + hash_value" where
  "YaafeCompound_hash b es =
     (case definition' (YaafeCompound b es) of
        Inl err \<Rightarrow> Inl err
      | Inr d \<Rightarrow> Inr (HashOfTuple d))"

section \<open>Extraction: \<open>YaafeFeatureExtractor.__call__\<close>\<close>

text \<open>
  The item is a dictionary; \<open>None\<close> is a missing key. The keys \<open>uri\<close> and \<open>database\<close>
  are only read by \<open>get_unique_identifier\<close>.
\<close>

record item =
  wav :: "string option"
  channel :: "int option"
  uri :: "string option"
  database :: "string option"

text \<open>
  What the audio reader returns: a one-dimensional array of samples, or a two-dimensional
  one of the given number of columns (channels), one row per frame.
\<close>

datatype ndarray = Array1 "fnum list" | Array2 nat "fnum list list"

fun wf_ndarray :: "ndarray \<Rightarrow> bool" where
  "wf_ndarray (Array1 xs) = True"
| "wf_ndarray (Array2 n rows) = list_all (\<lambda>r. length r = n) rows"


text \<open>
  The collaborators of the call, which are not part of this repository: the audio reader
  (\<open>Inl\<close> is its \<open>IOError\<close>), the feature plan of the engine (whether it accepts a feature
  definition, given what it holds), the engine (the blocks it computes, by name, from the
  data flow it has loaded) and the identifier of an item.
\<close>

record env =
  sndio_read :: "string \<Rightarrow> string + (ndarray \<times> int)"
  addFeature :: "data_flow \<Rightarrow> string \<Rightarrow> bool"
  processAudio :: "data_flow option \<Rightarrow> fnum list \<Rightarrow> (string \<rightharpoonup> fnum list list)"
  get_unique_identifier :: "item \<Rightarrow> string"

record SlidingWindowFeature =
  data :: "fnum list list"
  sliding_window :: SlidingWindow

text \<open>
  A call returns or raises, may emit warnings, and leaves the object in a new state
  (also when it raises).
\<close>

record outcome =
  returned :: "error + SlidingWindowFeature"
  warnings :: "string list"
  self_after :: extractor

definition load :: "env \<Rightarrow> item \<Rightarrow> error + (ndarray \<times> int)" where
  "load en it =
     (case wav it of
        None \<Rightarrow> Inl (KeyError ''wav'')
      | Some w \<Rightarrow>
          (case sndio_read en w of
             Inl msg \<Rightarrow> Inl (PyannoteFeatureExtractionError msg)
           | Inr (y, sample_rate) \<Rightarrow> Inr (y, sample_rate)))"

fun add_features :: "(data_flow \<Rightarrow> string \<Rightarrow> bool) \<Rightarrow> data_flow \<Rightarrow> (string \<times> string) list
    \<Rightarrow> error + data_flow" where
  "add_features accept plan [] = Inr plan"
| "add_features accept plan ((name, recipe) # d) =
     (let s = name @ '': '' @ recipe
      in if accept plan s
         then add_features accept (plan\<lparr>df_features := df_features plan @ [s]\<rparr>) d
         else Inl (AssertionError AddFeatureRejected))"

text \<open>Lines 96 to 104: the data flow is rebuilt when the sample rate changes.\<close>

definition configure :: "env \<Rightarrow> extractor \<Rightarrow> int \<Rightarrow> (error + unit) \<times> extractor" where
  "configure en x sample_rate =
     (if (case sample_rate' (attrs x) of None \<Rightarrow> True | Some s \<Rightarrow> s \<noteq> sample_rate)
      then
        let x1 = set_attrs ((attrs x)\<lparr>sample_rate' := Some sample_rate\<rparr>) x;
            feature_plan = \<lparr>df_sample_rate = sample_rate, df_features = []\<rparr>
        in (case definition' x1 of
              Inl err \<Rightarrow> (Inl err, x1)
            | Inr d \<Rightarrow>
                (case add_features (addFeature en) feature_plan d of
                   Inl err \<Rightarrow> (Inl err, x1)
                 | Inr flow \<Rightarrow> (Inr (), set_attrs ((attrs x1)\<lparr>engine' := Some flow\<rparr>) x1)))
      else (Inr (), x))"

text \<open>
  Lines 106 to 111. \<open>y[:, k]\<close> follows the indexing of numpy: on an axis of size \<open>n\<close>
  an index from \<open>-n\<close> to \<open>-1\<close> counts from the end, and an index outside \<open>-n .. n-1\<close>
  raises \<open>IndexError\<close>.
\<close>

fun reshape_2d :: "ndarray \<Rightarrow> nat \<times> fnum list list" where
  "reshape_2d (Array1 xs) = (1, map (\<lambda>v. [v]) xs)"
| "reshape_2d (Array2 n rows) = (n, rows)"

definition column :: "nat \<times> fnum list list \<Rightarrow> int \<Rightarrow> error + fnum list" where
  "column y k =
     (let n = int (fst y)
      in if 0 \<le> k \<and> k < n then Inr (map (\<lambda>r. r ! nat k) (snd y))
         else if - n \<le> k \<and> k < 0 then Inr (map (\<lambda>r. r ! nat (k + n)) (snd y))
         else Inl IndexError)"

definition select_channel :: "ndarray \<Rightarrow> item \<Rightarrow> error + fnum list" where
  "select_channel y it =
     (let c = (case channel it of None \<Rightarrow> 1 | Some c \<Rightarrow> c)
      in column (reshape_2d y) (c - 1))"

text \<open>
  Lines 117 and 118: the blocks are looked up by name, in the order of the definition,
  and stacked side by side. \<open>np.hstack\<close> raises on an empty list and on blocks that
  differ in their number of rows.
\<close>

fun lookup_all :: "(string \<rightharpoonup> 'a) \<Rightarrow> string list \<Rightarrow> error + 'a list" where
  "lookup_all features [] = Inr []"
| "lookup_all features (name # names) =
     (case features name of
        None \<Rightarrow> Inl (KeyError name)
      | Some m \<Rightarrow>
          (case lookup_all features names of Inl err \<Rightarrow> Inl err | Inr ms \<Rightarrow> Inr (m # ms)))"

fun hstack :: "'a list list list \<Rightarrow> error + 'a list list" where
  "hstack [] = Inl ValueError"
| "hstack [m] = Inr m"
| "hstack (m # ms) =
     (case hstack ms of
        Inl err \<Rightarrow> Inl err
      | Inr r \<Rightarrow> if length m = length r then Inr (map2 (@) m r) else Inl ValueError)"

definition assemble :: "env \<Rightarrow> extractor \<Rightarrow> fnum list \<Rightarrow> error + fnum list list" where
  "assemble en x y =
     (let features = processAudio en (engine' (attrs x)) y
      in case definition' x of
           Inl err \<Rightarrow> Inl err
         | Inr d \<Rightarrow>
             (case lookup_all features (map fst d) of
                Inl err \<Rightarrow> Inl err
              | Inr blocks \<Rightarrow> hstack blocks))"

definition has_nan :: "fnum list list \<Rightarrow> bool" where
  "has_nan m = list_ex (\<lambda>r. list_ex (\<lambda>v. v = NaN) r) m"

definition nan_message :: "string \<Rightarrow> string" where
  "nan_message u =
     ''Features extracted from '' @ [CHR 0x22] @ u @ [CHR 0x22] @ '' contain NaNs.''"

definition raised :: "error \<Rightarrow> extractor \<Rightarrow> outcome" where
  "raised err x = \<lparr>returned = Inl err, warnings = [], self_after = x\<rparr>"

definition call :: "env \<Rightarrow> extractor \<Rightarrow> item \<Rightarrow> outcome" where
  "call en x it =
     (case load en it of
        Inl err \<Rightarrow> raised err x
      | Inr (y, sample_rate) \<Rightarrow>
          (case configure en x sample_rate of
             (Inl err, x1) \<Rightarrow> raised err x1
           | (Inr u, x1) \<Rightarrow>
               (case select_channel y it of
                  Inl err \<Rightarrow> raised err x1
                | Inr y1 \<Rightarrow>
                    (case assemble en x1 y1 of
                       Inl err \<Rightarrow> raised err x1
                     | Inr d \<Rightarrow>
                         \<lparr>returned = Inr \<lparr>data = d, sliding_window = sliding_window' (attrs x1)\<rparr>,
                          warnings = (if has_nan d
                                      then [nan_message (get_unique_identifier en it)]
                                      else []),
                          self_after = x1\<rparr>))))"

section \<open>The timing of the segmentation model\<close>

text \<open>
  The fields of the spectrogram that \<open>num_frames\<close> reads. \<open>//\<close> is floor division and
  raises on a zero divisor.
\<close>

record Spectrogram =
  hop_length :: int
  n_fft :: int
  win_length :: int
  center :: bool

definition floordiv :: "int \<Rightarrow> int \<Rightarrow> error + int" where
  "floordiv a b = (if b = 0 then Inl ZeroDivisionError else Inr (a div b))"

definition num_frames :: "Spectrogram \<Rightarrow> int \<Rightarrow> error + int" where
  "num_frames sp num_samples =
     (if center sp
      then (case floordiv num_samples (hop_length sp) of
              Inl err \<Rightarrow> Inl err | Inr q \<Rightarrow> Inr (1 + q))
      else (case floordiv (num_samples - n_fft sp) (hop_length sp) of
              Inl err \<Rightarrow> Inl err | Inr q \<Rightarrow> Inr (1 + q)))"

section \<open>Named quantities and example objects\<close>

text \<open>
  The block size and the step size that \<open>definition\<close> computes for an object at a sample
  rate, and an object with the default duration and step that has seen a sample rate
  (the engine, which \<open>definition\<close> does not read, left as it was).
\<close>

definition block_size_at :: "YaafeFeatureExtractor \<Rightarrow> int \<Rightarrow> int" where
  "block_size_at b sr = py_int (float_mul (float_of_int sr) (duration b))"

definition step_size_at :: "YaafeFeatureExtractor \<Rightarrow> int \<Rightarrow> int" where
  "step_size_at b sr = py_int (float_mul (float_of_int sr) (step b))"

definition seen :: "int \<Rightarrow> YaafeFeatureExtractor" where
  "seen sr = (YaafeFeatureExtractor_init default_duration default_step)\<lparr>sample_rate' := Some sr\<rparr>"

text \<open>
  Two compounds of children that have each seen 16 kHz: a ZCR with an MFCC, and a ZCR
  twice.
\<close>

definition zcr_mfcc :: extractor where
  "zcr_mfcc =
     YaafeCompound (YaafeFeatureExtractor_init default_duration default_step)
       [YaafeZCR (seen 16000), YaafeMFCC (seen 16000) default_mfcc]"

definition zcr_zcr :: extractor where
  "zcr_zcr =
     YaafeCompound (YaafeFeatureExtractor_init default_duration default_step)
       [YaafeZCR (seen 16000), YaafeZCR (seen 16000)]"

text \<open>A compound of no children, as its constructor leaves it.\<close>

definition empty_compound :: extractor where
  "empty_compound = YaafeCompound (YaafeFeatureExtractor_init default_duration default_step) []"

text \<open>The channel selector of an item: \<open>item.get('channel', 1)\<close>.\<close>

definition selector :: "item \<Rightarrow> int" where
  "selector it = (case channel it of None \<Rightarrow> 1 | Some c \<Rightarrow> c)"

text \<open>
  Collaborators for the examples: a reader that knows a stereo file and a mono file
  with a NaN sample, both at 16 kHz, a feature plan that accepts everything, an engine
  whose block \<open>zcr\<close> has one row per sample, holding that sample, and the \<open>uri\<close> of the
  item as its identifier.
\<close>

definition stereo :: ndarray where
  "stereo = Array2 2 [[Num 1, Num 2], [Num 3, Num 4]]"

definition echo_env :: env where
  "echo_env =
     \<lparr>sndio_read = (\<lambda>w. if w = ''stereo.wav'' then Inr (stereo, 16000)
                         else if w = ''nan.wav'' then Inr (Array1 [Num 0, NaN], 16000)
                         else Inl ''No such file''),
      addFeature = (\<lambda>plan s. True),
      processAudio = (\<lambda>flow y name. if name = ''zcr'' then Some (map (\<lambda>v. [v]) y) else None),
      get_unique_identifier = (\<lambda>it. case uri it of None \<Rightarrow> [] | Some u \<Rightarrow> u)\<rparr>"


definition nan_item :: item where
  "nan_item = \<lparr>wav = Some ''nan.wav'', channel = None, uri = Some ''nan'', database = None\<rparr>"

definition fresh_zcr :: extractor where
  "fresh_zcr = YaafeZCR_init default_duration default_step"

text \<open>The object \<open>fresh_zcr\<close> after a first call at 16 kHz.\<close>

definition loaded_zcr :: extractor where
  "loaded_zcr =
     YaafeZCR ((seen 16000)
       \<lparr>engine' := Some \<lparr>df_sample_rate = 16000,
                         df_features = [''zcr: ZCR blockSize=400 stepSize=160'']\<rparr>\<rparr>)"



section \<open>Auxiliary facts\<close>

lemma fmt_d_0: "fmt_d 0 = ''0''"
  by code_simp

lemma fmt_d_1: "fmt_d 1 = ''1''"
  by code_simp

lemma fmt_d_11: "fmt_d 11 = ''11''"
  by code_simp

lemma fmt_d_12: "fmt_d 12 = ''12''"
  by code_simp

lemma collect_map_Inr: "collect (map Inr ds) = Inr (concat ds)"
  by (induction ds) simp_all

lemma collect_Inr_D:
  "collect rs = Inr d \<Longrightarrow> \<exists>ds. rs = map Inr ds \<and> d = concat ds"
proof (induction rs arbitrary: d)
  case Nil
  then show ?case by simp
next
  case (Cons r rs)
  from Cons.prems obtain d0 d1 where r: "r = Inr d0" and c: "collect rs = Inr d1"
    and d: "d = d0 @ d1"
    by (auto split: sum.splits)
  from Cons.IH [OF c] obtain ds where "rs = map Inr ds" and "d1 = concat ds"
    by blast
  with r d have "r # rs = map Inr (d0 # ds) \<and> d = concat (d0 # ds)"
    by simp
  then show ?case by (rule exI)
qed

lemma collect_Inr_iff:
  "collect rs = Inr d \<longleftrightarrow> (\<exists>ds. rs = map Inr ds \<and> d = concat ds)"
  using collect_Inr_D collect_map_Inr by blast

lemma collect_Inl_mem: "collect rs = Inl err \<Longrightarrow> Inl err \<in> set rs"
  by (induction rs) (auto split: sum.splits)

lemma collect_Inl_ex: "Inl err \<in> set rs \<Longrightarrow> \<exists>err'. collect rs = Inl err'"
  by (induction rs) (auto split: sum.splits)

lemma definition_error: "definition' x = Inl err \<Longrightarrow> err = AttributeError"
proof (induction x arbitrary: err)
  case (YaafeZCR b)
  then show ?case by (auto split: option.splits simp: Let_def)
next
  case (YaafeMFCC b p)
  then show ?case by (auto split: option.splits simp: Let_def)
next
  case (YaafeCompound b es)
  from YaafeCompound.prems have "Inl err \<in> set (map definition' es)"
    by (auto dest: collect_Inl_mem)
  with YaafeCompound.IH show ?case by auto
qed

lemma sizes_16000:
  "block_size_at (seen 16000) 16000 = 400" "step_size_at (seen 16000) 16000 = 160"
  by code_simp+


lemma fmt_d_sizes:
  "fmt_d 400 = ''400''" "fmt_d 160 = ''160''" "fmt_d 275 = ''275''" "fmt_d 110 = ''110''"
  by code_simp+

lemma seen_simps [simp]:
  "sample_rate' (seen sr) = Some sr"
  "duration (seen sr) = default_duration"
  "step (seen sr) = default_step"
  by (simp_all add: seen_def YaafeFeatureExtractor_init_def)

lemma mfcc_definition_list:
  assumes "sample_rate' b = Some sr"
  shows "definition' (YaafeMFCC b p) =
     Inr ([(''mfcc'', mfcc_recipe (if mfcc_e p then 0 else 1) (mfcc_coefs p + py_bool (mfcc_e p))
             (block_size_at b sr) (step_size_at b sr))]
       @ (if mfcc_De p \<or> mfcc_D p
          then [(''mfcc_d'', mfcc_recipe (if mfcc_De p then 0 else 1)
                   (py_bool (mfcc_D p) * mfcc_coefs p + py_bool (mfcc_De p))
                   (block_size_at b sr) (step_size_at b sr) @ '' > Derivate DOrder=1'')]
          else [])
       @ (if mfcc_DDe p \<or> mfcc_DD p
          then [(''mfcc_dd'', mfcc_recipe (if mfcc_DDe p then 0 else 1)
                   (py_bool (mfcc_DD p) * mfcc_coefs p + py_bool (mfcc_DDe p))
                   (block_size_at b sr) (step_size_at b sr) @ '' > Derivate DOrder=2'')]
          else []))"
  using assms by (simp add: Let_def block_size_at_def step_size_at_def)

lemma map_definition_eq:
  "map definition' es = map Inr ds \<longleftrightarrow> list_all2 (\<lambda>x dx. definition' x = Inr dx) es ds"
  by (simp add: list.rel_eq [symmetric] list.rel_map)

lemma compound_definition_iff:
  "definition' (YaafeCompound b es) = Inr d \<longleftrightarrow>
     (\<exists>ds. list_all2 (\<lambda>x dx. definition' x = Inr dx) es ds \<and> d = concat ds)"
  by (simp add: collect_Inr_iff map_definition_eq)

lemma zcr_definition:
  "definition' (YaafeZCR (b\<lparr>sample_rate' := Some sr\<rparr>)) =
     Inr [(''zcr'', ''ZCR blockSize='' @ fmt_d (block_size_at b sr)
             @ '' stepSize='' @ fmt_d (step_size_at b sr))]"
  by (simp add: Let_def block_size_at_def step_size_at_def)

lemma zcr_seen_16000:
  "definition' (YaafeZCR (seen 16000)) = Inr [(''zcr'', ''ZCR blockSize=400 stepSize=160'')]"
  using zcr_definition
      [where b = "YaafeFeatureExtractor_init default_duration default_step" and sr = 16000]
    sizes_16000
  by (simp add: seen_def fmt_d_sizes block_size_at_def step_size_at_def
      YaafeFeatureExtractor_init_def del: definition'.simps)

lemma mfcc_seen_16000:
  "definition' (YaafeMFCC (seen 16000) default_mfcc) =
     Inr [(''mfcc'', ''MFCC CepsIgnoreFirstCoeff=0 CepsNbCoeffs=12 blockSize=400 stepSize=160'')]"
  using mfcc_definition_list [of "seen 16000" 16000 default_mfcc]
  by (simp add: default_mfcc_def sizes_16000 fmt_d_sizes mfcc_recipe_def py_bool_def
      fmt_d_0 fmt_d_12)


lemma distinct_concat_nth:
  "distinct (concat xss) \<longleftrightarrow>
     (\<forall>i<length xss. distinct (xss ! i))
     \<and> (\<forall>i<length xss. \<forall>j<length xss. i \<noteq> j \<longrightarrow> set (xss ! i) \<inter> set (xss ! j) = {})"
proof (induction xss)
  case Nil
  show ?case by simp
next
  case (Cons xs xss)
  have un: "set (concat xss) = (\<Union>j\<in>{..<length xss}. set (xss ! j))"
    by (force simp: in_set_conv_nth)
  have disj: "set xs \<inter> set (concat xss) = {} \<longleftrightarrow>
      (\<forall>j<length xss. set xs \<inter> set (xss ! j) = {})"
    unfolding un by blast
  have sym: "(\<forall>j<length xss. set (xss ! j) \<inter> set xs = {}) \<longleftrightarrow>
      (\<forall>j<length xss. set xs \<inter> set (xss ! j) = {})"
    by (simp add: Int_commute)
  have "distinct (concat (xs # xss)) \<longleftrightarrow>
      distinct xs \<and> distinct (concat xss) \<and> set xs \<inter> set (concat xss) = {}"
    by simp
  also have "\<dots> \<longleftrightarrow> distinct xs
      \<and> ((\<forall>i<length xss. distinct (xss ! i))
          \<and> (\<forall>i<length xss. \<forall>j<length xss. i \<noteq> j \<longrightarrow> set (xss ! i) \<inter> set (xss ! j) = {}))
      \<and> (\<forall>j<length xss. set xs \<inter> set (xss ! j) = {})"
    unfolding Cons.IH disj by (rule refl)
  also have "\<dots> \<longleftrightarrow> (\<forall>i<length (xs # xss). distinct ((xs # xss) ! i))
     \<and> (\<forall>i<length (xs # xss). \<forall>j<length (xs # xss). i \<noteq> j \<longrightarrow>
          set ((xs # xss) ! i) \<inter> set ((xs # xss) ! j) = {})"
    using sym by (simp add: All_less_Suc2) blast
  finally show ?case .
qed





lemma round_product_11025: "round (float_mul (float_of_int 11025) default_duration) = 276"
  by code_simp


text \<open>
  Products of two floats that are not the exact products: 24000 times 0.009, 22050 times
  0.7 and 8000 times 0.03, where \<open>int\<close> gives 215, 15434 and 240.
\<close>

lemma float_products:
  "py_int (float_mul (float_of_int 24000) (to_double (9 / 1000))) = 215"
  "py_int (float_mul (float_of_int 22050) (to_double (7 / 10))) = 15434"
  "py_int (float_mul (float_of_int 8000) (to_double (3 / 100))) = 240"
  by code_simp+



lemma other_values:
  "to_double (1 / 20) \<noteq> default_duration" "to_double (1 / 50) \<noteq> default_step"
  by code_simp+

lemma sizes_update [simp]:
  "block_size_at (b\<lparr>sample_rate' := s\<rparr>) sr = block_size_at b sr"
  "step_size_at (b\<lparr>sample_rate' := s\<rparr>) sr = step_size_at b sr"
  by (simp_all add: block_size_at_def step_size_at_def)



lemma compound_raises_iff:
  "definition' (YaafeCompound b es) = Inl AttributeError \<longleftrightarrow>
     (\<exists>x\<in>set es. definition' x = Inl AttributeError)"
proof
  assume "definition' (YaafeCompound b es) = Inl AttributeError"
  then have "collect (map definition' es) = Inl AttributeError"
    by simp
  then have "Inl AttributeError \<in> set (map definition' es)"
    by (rule collect_Inl_mem)
  then show "\<exists>x\<in>set es. definition' x = Inl AttributeError"
    by auto
next
  assume "\<exists>x\<in>set es. definition' x = Inl AttributeError"
  then have "Inl AttributeError \<in> set (map definition' es)"
    by force
  then obtain err where e: "collect (map definition' es) = Inl err"
    using collect_Inl_ex by blast
  then have "definition' (YaafeCompound b es) = Inl err"
    by simp
  with definition_error show "definition' (YaafeCompound b es) = Inl AttributeError"
    by blast
qed

lemma definition_cases:
  "definition' x = Inl AttributeError \<or> (\<exists>dx. definition' x = Inr dx)"
  by (cases "definition' x") (auto dest: definition_error)

lemma load_error:
  "load en it = Inl err \<Longrightarrow> (\<exists>k. err = KeyError k) \<or> (\<exists>m. err = PyannoteFeatureExtractionError m)"
  by (auto simp: load_def split: option.splits sum.splits)

lemma load_channel [simp]: "load en (it\<lparr>channel := c\<rparr>) = load en it"
  by (simp add: load_def)

lemma add_features_error:
  "add_features accept plan d = Inl err \<Longrightarrow> err = AssertionError AddFeatureRejected"
  by (induction accept plan d rule: add_features.induct) (auto simp: Let_def split: if_splits)

lemma configure_error:
  "configure en x sr = (Inl err, x1) \<Longrightarrow>
     err = AttributeError \<or> err = AssertionError AddFeatureRejected"
  by (auto simp: configure_def Let_def split: if_splits sum.splits
      dest: definition_error add_features_error)

lemma attrs_set_attrs [simp]: "attrs (set_attrs b x) = b"
  by (cases x) simp_all

lemma configure_window:
  "configure en x sr = (r, x1) \<Longrightarrow> sliding_window' (attrs x1) = sliding_window' (attrs x)"
  by (auto simp: configure_def Let_def split: if_splits sum.splits)

lemma column_error: "column y k = Inl err \<Longrightarrow> err = IndexError"
  by (auto simp: column_def Let_def split: if_splits)

lemma select_channel_error: "select_channel y it = Inl err \<Longrightarrow> err = IndexError"
  by (auto simp: select_channel_def Let_def dest: column_error)

lemma lookup_all_error: "lookup_all f ns = Inl err \<Longrightarrow> \<exists>k. err = KeyError k"
  by (induction ns arbitrary: err) (auto split: option.splits sum.splits)

lemma hstack_error: "hstack ms = Inl err \<Longrightarrow> err = ValueError"
  by (induction ms arbitrary: err rule: hstack.induct) (auto split: sum.splits if_splits)

lemma assemble_error:
  "assemble en x y = Inl err \<Longrightarrow>
     err = AttributeError \<or> (\<exists>k. err = KeyError k) \<or> err = ValueError"
  by (auto simp: assemble_def Let_def split: sum.splits
      dest: definition_error lookup_all_error hstack_error)

lemma call_error:
  assumes "returned (call en x it) = Inl err"
  shows "err = AttributeError \<or> err = AssertionError AddFeatureRejected \<or> err = IndexError
     \<or> err = ValueError \<or> (\<exists>k. err = KeyError k)
     \<or> (\<exists>m. err = PyannoteFeatureExtractionError m)"
proof (cases "load en it")
  case (Inl e)
  with assms have "err = e"
    by (simp add: call_def raised_def)
  with Inl load_error show ?thesis by blast
next
  case (Inr p)
  obtain y sr where p: "p = (y, sr)" by (cases p)
  obtain r x1 where c: "configure en x sr = (r, x1)" by (cases "configure en x sr")
  show ?thesis
  proof (cases r)
    case (Inl e)
    with assms Inr p c have "err = e"
      by (simp add: call_def raised_def)
    with Inl c configure_error show ?thesis by blast
  next
    case r: (Inr u)
    show ?thesis
    proof (cases "select_channel y it")
      case (Inl e)
      with assms Inr p c r have "err = e"
        by (simp add: call_def raised_def)
      with Inl select_channel_error show ?thesis by blast
    next
      case s: (Inr y1)
      show ?thesis
      proof (cases "assemble en x1 y1")
        case (Inl e)
        with assms Inr p c r s have "err = e"
          by (simp add: call_def raised_def)
        with Inl assemble_error show ?thesis by blast
      next
        case a: (Inr d)
        with assms Inr p c r s show ?thesis
          by (simp add: call_def)
      qed
    qed
  qed
qed


lemma selector_channel [simp]: "selector (it\<lparr>channel := Some c\<rparr>) = c"
  by (simp add: selector_def)

lemma fresh_zcr_configure:
  "configure echo_env fresh_zcr 16000 = (Inr (), loaded_zcr)"
proof -
  have "definition' (YaafeZCR (seen 16000)) = Inr [(''zcr'', ''ZCR blockSize=400 stepSize=160'')]"
    by (rule zcr_seen_16000)
  moreover have "YaafeZCR ((YaafeFeatureExtractor_init default_duration default_step)
      \<lparr>sample_rate' := Some 16000\<rparr>) = YaafeZCR (seen 16000)"
    by (simp add: seen_def)
  ultimately show ?thesis
    by (simp add: configure_def fresh_zcr_def YaafeZCR_init_def loaded_zcr_def echo_env_def
        YaafeFeatureExtractor_init_def del: definition'.simps)
qed



lemma loaded_zcr_definition:
  "definition' loaded_zcr = Inr [(''zcr'', ''ZCR blockSize=400 stepSize=160'')]"
proof -
  have "definition' loaded_zcr = definition' (YaafeZCR (seen 16000))"
    by (simp add: loaded_zcr_def)
  then show ?thesis
    by (simp only: zcr_seen_16000)
qed

lemma assemble_echo: "assemble echo_env loaded_zcr y = Inr (map (\<lambda>v. [v]) y)"
proof -
  have "processAudio echo_env (engine' (attrs loaded_zcr)) y ''zcr'' = Some (map (\<lambda>v. [v]) y)"
    by (simp add: echo_env_def)
  then show ?thesis
    unfolding assemble_def loaded_zcr_definition by (simp add: Let_def)
qed


lemma load_nan: "load echo_env nan_item = Inr (Array1 [Num 0, NaN], 16000)"
  by (simp add: load_def echo_env_def nan_item_def)


lemma has_nan_iff: "has_nan d \<longleftrightarrow> (\<exists>r\<in>set d. NaN \<in> set r)"
  by (auto simp: has_nan_def list_ex_iff)

section \<open>The number of frames\<close>

text \<open>
  Claim C9. \<open>num_frames(num_samples)\<close> is \<open>1 + num_samples // hop_length\<close> when the
  transform is centered and \<open>1 + (num_samples - n_fft) // hop_length\<close> otherwise, the window
  length of the claim being the field \<open>n_fft\<close> that the method reads; with a centered
  transform and a hop length of 160, 0 samples give 1 frame, 160 samples 2 and 159
  samples 1. The hop length is not zero, as floor division requires.
\<close>

theorem num_frames_formula:
  "hop_length sp \<noteq> 0 \<Longrightarrow>
   num_frames sp num_samples =
     Inr (if center sp then 1 + num_samples div hop_length sp
          else 1 + (num_samples - n_fft sp) div hop_length sp)
   \<and> (center sp \<and> hop_length sp = 160 \<longrightarrow>
        num_frames sp 0 = Inr 1 \<and> num_frames sp 160 = Inr 2 \<and> num_frames sp 159 = Inr 1)"
  by (simp add: num_frames_def floordiv_def)

theorem num_frames_formula_witness:
  "hop_length \<lparr>hop_length = 160, n_fft = 400, win_length = 400, center = True\<rparr> \<noteq> 0
   \<and> num_frames \<lparr>hop_length = 160, n_fft = 400, win_length = 400, center = True\<rparr> 16000 = Inr 101
   \<and> num_frames \<lparr>hop_length = 160, n_fft = 400, win_length = 400, center = True\<rparr> 0 = Inr 1
   \<and> num_frames \<lparr>hop_length = 160, n_fft = 400, win_length = 400, center = True\<rparr> 160 = Inr 2
   \<and> num_frames \<lparr>hop_length = 160, n_fft = 400, win_length = 400, center = True\<rparr> 159 = Inr 1"
  using num_frames_formula [of "\<lparr>hop_length = 160, n_fft = 400, win_length = 400, center = True\<rparr>" 16000]
  by simp

section \<open>The MFCC recipe\<close>

text \<open>
  Claim C5. The dimension of an MFCC recipe is \<open>e + De + DDe + coefs * (1 + D + DD)\<close>, the
  booleans counted as 0 and 1, whatever the sample rate attribute holds; with 11
  coefficients, the energy and no derivative it is 12, and once a sample rate is seen the
  definition has the single entry \<open>mfcc\<close> with \<open>CepsIgnoreFirstCoeff=0\<close> and
  \<open>CepsNbCoeffs=12\<close>.
\<close>

theorem mfcc_dimension:
  "dimension (YaafeMFCC b p) =
     py_bool (mfcc_e p) + py_bool (mfcc_De p) + py_bool (mfcc_DDe p)
       + mfcc_coefs p * (1 + py_bool (mfcc_D p) + py_bool (mfcc_DD p))
   \<and> dimension (YaafeMFCC (b\<lparr>sample_rate' := s\<rparr>) p) = dimension (YaafeMFCC b p)
   \<and> (mfcc_coefs p = 11 \<and> mfcc_e p \<and> \<not> mfcc_D p \<and> \<not> mfcc_DD p \<and> \<not> mfcc_De p \<and> \<not> mfcc_DDe p \<longrightarrow>
        dimension (YaafeMFCC b p) = 12
        \<and> (sample_rate' b = Some sr \<longrightarrow>
             definition' (YaafeMFCC b p) =
               Inr [(''mfcc'', ''MFCC CepsIgnoreFirstCoeff=0 CepsNbCoeffs=12 blockSize=''
                       @ fmt_d (block_size_at b sr) @ '' stepSize='' @ fmt_d (step_size_at b sr))]))"
proof -
  have dim: "dimension (YaafeMFCC b p) =
     py_bool (mfcc_e p) + py_bool (mfcc_De p) + py_bool (mfcc_DDe p)
       + mfcc_coefs p * (1 + py_bool (mfcc_D p) + py_bool (mfcc_DD p))"
    by (simp add: algebra_simps)
  have indep: "dimension (YaafeMFCC (b\<lparr>sample_rate' := s\<rparr>) p) = dimension (YaafeMFCC b p)"
    by simp
  have ex: "dimension (YaafeMFCC b p) = 12
        \<and> (sample_rate' b = Some sr \<longrightarrow>
             definition' (YaafeMFCC b p) =
               Inr [(''mfcc'', ''MFCC CepsIgnoreFirstCoeff=0 CepsNbCoeffs=12 blockSize=''
                       @ fmt_d (block_size_at b sr) @ '' stepSize='' @ fmt_d (step_size_at b sr))])"
    if h: "mfcc_coefs p = 11 \<and> mfcc_e p \<and> \<not> mfcc_D p \<and> \<not> mfcc_DD p \<and> \<not> mfcc_De p \<and> \<not> mfcc_DDe p"
  proof -
    from h have "dimension (YaafeMFCC b p) = 12"
      by (simp add: py_bool_def)
    moreover have "definition' (YaafeMFCC b p) =
               Inr [(''mfcc'', ''MFCC CepsIgnoreFirstCoeff=0 CepsNbCoeffs=12 blockSize=''
                       @ fmt_d (block_size_at b sr) @ '' stepSize='' @ fmt_d (step_size_at b sr))]"
      if "sample_rate' b = Some sr"
      using mfcc_definition_list [OF that, of p] h
      by (simp add: mfcc_recipe_def py_bool_def fmt_d_0 fmt_d_12)
    ultimately show ?thesis by blast
  qed
  from dim indep ex show ?thesis by blast
qed

theorem mfcc_dimension_witness:
  "dimension (YaafeMFCC (seen 16000) default_mfcc) = 12
   \<and> definition' (YaafeMFCC (seen 16000) default_mfcc) =
       Inr [(''mfcc'', ''MFCC CepsIgnoreFirstCoeff=0 CepsNbCoeffs=12 blockSize=400 stepSize=160'')]"
  using mfcc_dimension [of "seen 16000" default_mfcc None 16000]
  by (simp add: default_mfcc_def sizes_16000 fmt_d_sizes)

text \<open>
  Claim C6. Once a sample rate is seen, the definition of an MFCC recipe is the base
  entry, then the entry \<open>mfcc_d\<close> exactly when \<open>De\<close> or \<open>D\<close> holds, with
  \<open>D * coefs + De\<close> coefficients and the flag 0 if \<open>De\<close> else 1, then the entry
  \<open>mfcc_dd\<close> by the same rule on \<open>DDe\<close> and \<open>DD\<close>; with 11 coefficients, the energy,
  \<open>D\<close> and not \<open>De\<close>, the second entry has \<open>CepsNbCoeffs=11\<close> and
  \<open>CepsIgnoreFirstCoeff=1\<close>.
\<close>

theorem mfcc_derivatives:
  "sample_rate' b = Some sr \<Longrightarrow>
   definition' (YaafeMFCC b p) =
     Inr ([(''mfcc'', mfcc_recipe (if mfcc_e p then 0 else 1) (mfcc_coefs p + py_bool (mfcc_e p))
             (block_size_at b sr) (step_size_at b sr))]
       @ (if mfcc_De p \<or> mfcc_D p
          then [(''mfcc_d'', mfcc_recipe (if mfcc_De p then 0 else 1)
                   (py_bool (mfcc_D p) * mfcc_coefs p + py_bool (mfcc_De p))
                   (block_size_at b sr) (step_size_at b sr) @ '' > Derivate DOrder=1'')]
          else [])
       @ (if mfcc_DDe p \<or> mfcc_DD p
          then [(''mfcc_dd'', mfcc_recipe (if mfcc_DDe p then 0 else 1)
                   (py_bool (mfcc_DD p) * mfcc_coefs p + py_bool (mfcc_DDe p))
                   (block_size_at b sr) (step_size_at b sr) @ '' > Derivate DOrder=2'')]
          else []))
   \<and> (mfcc_coefs p = 11 \<and> mfcc_e p \<and> mfcc_D p \<and> \<not> mfcc_De p \<longrightarrow>
        (\<exists>d. definition' (YaafeMFCC b p) = Inr d \<and> 2 \<le> length d
           \<and> d ! 1 = (''mfcc_d'', ''MFCC CepsIgnoreFirstCoeff=1 CepsNbCoeffs=11 blockSize=''
                        @ fmt_d (block_size_at b sr) @ '' stepSize='' @ fmt_d (step_size_at b sr)
                        @ '' > Derivate DOrder=1'')))"
  using mfcc_definition_list [of b sr p]
  by (auto simp: mfcc_recipe_def py_bool_def fmt_d_1 fmt_d_11)

theorem mfcc_derivatives_witness:
  "sample_rate' (seen 16000) = Some 16000
   \<and> definition' (YaafeMFCC (seen 16000) (default_mfcc\<lparr>mfcc_D := True\<rparr>)) =
       Inr [(''mfcc'', ''MFCC CepsIgnoreFirstCoeff=0 CepsNbCoeffs=12 blockSize=400 stepSize=160''),
            (''mfcc_d'', ''MFCC CepsIgnoreFirstCoeff=1 CepsNbCoeffs=11 blockSize=400 stepSize=160 > Derivate DOrder=1'')]"
  using mfcc_derivatives [of "seen 16000" 16000 "default_mfcc\<lparr>mfcc_D := True\<rparr>"]
  by (simp add: default_mfcc_def sizes_16000 fmt_d_sizes mfcc_recipe_def py_bool_def
      fmt_d_0 fmt_d_1 fmt_d_11 fmt_d_12)

section \<open>Compound recipes\<close>

text \<open>
  Claim C7. The dimension of a compound is the sum of the dimensions of its children, and
  its definition is the concatenation, in the order of the children, of the definitions
  of the children: it returns a list exactly when every child does, and the list is then
  that concatenation.
\<close>

theorem compound_dimension_definition:
  "dimension (YaafeCompound b es) = (\<Sum>i<length es. dimension (es ! i))
   \<and> (definition' (YaafeCompound b es) = Inr d \<longleftrightarrow>
        (\<exists>ds. list_all2 (\<lambda>x dx. definition' x = Inr dx) es ds \<and> d = concat ds))"
proof -
  have "sum_list (map dimension es) = (\<Sum>i<length es. dimension (es ! i))"
    by (simp add: sum_list_sum_nth atLeast0LessThan)
  then show ?thesis
    using compound_definition_iff [of b es d] by simp
qed

theorem compound_dimension_definition_witness:
  "dimension zcr_mfcc = 13
   \<and> definition' zcr_mfcc =
       Inr [(''zcr'', ''ZCR blockSize=400 stepSize=160''),
            (''mfcc'', ''MFCC CepsIgnoreFirstCoeff=0 CepsNbCoeffs=12 blockSize=400 stepSize=160'')]"
proof -
  let ?dz = "[(''zcr'', ''ZCR blockSize=400 stepSize=160'')]"
  let ?dm = "[(''mfcc'', ''MFCC CepsIgnoreFirstCoeff=0 CepsNbCoeffs=12 blockSize=400 stepSize=160'')]"
  let ?es = "[YaafeZCR (seen 16000), YaafeMFCC (seen 16000) default_mfcc]"
  have "list_all2 (\<lambda>x dx. definition' x = Inr dx) ?es [?dz, ?dm] \<and> ?dz @ ?dm = concat [?dz, ?dm]"
    using zcr_seen_16000 mfcc_seen_16000 by simp
  then have ex: "\<exists>ds. list_all2 (\<lambda>x dx. definition' x = Inr dx) ?es ds \<and> ?dz @ ?dm = concat ds"
    by (rule exI)
  have two: "{..<2::nat} = {0, 1}"
    by auto
  show ?thesis
    using compound_dimension_definition
      [of "YaafeFeatureExtractor_init default_duration default_step" ?es "?dz @ ?dm"] ex
    by (simp add: zcr_mfcc_def two default_mfcc_def py_bool_def)
qed

text \<open>
  Claim C3, as stated: no recipe, and in particular no compound, has two instructions of
  the same name. It fails on the compound of two ZCR recipes, whose definition holds the
  name \<open>zcr\<close> twice.
\<close>

theorem unique_names_counterexample:
  "YaafeCompound_init [YaafeZCR (seen 16000), YaafeZCR (seen 16000)] default_duration default_step
     = Inr zcr_zcr
   \<and> definition' zcr_zcr =
       Inr [(''zcr'', ''ZCR blockSize=400 stepSize=160''),
            (''zcr'', ''ZCR blockSize=400 stepSize=160'')]
   \<and> \<not> distinct [''zcr'', ''zcr'']"
proof -
  have "definition' zcr_zcr =
       Inr [(''zcr'', ''ZCR blockSize=400 stepSize=160''),
            (''zcr'', ''ZCR blockSize=400 stepSize=160'')]"
    unfolding zcr_zcr_def definition'.simps(3) list.map zcr_seen_16000 by simp
  then show ?thesis
    by (simp add: YaafeCompound_init_def zcr_zcr_def)
qed

text \<open>
  Claim C3, amended. The definition of a ZCR recipe and of an MFCC recipe has no two
  entries of the same name. The definition of a compound is the concatenation of the
  definitions of its children, and it has no two entries of the same name exactly when
  no child's definition has and no two children share a name.
\<close>

theorem unique_names_amended:
  "(definition' (YaafeZCR b) = Inr d \<longrightarrow> distinct (map fst d))
   \<and> (definition' (YaafeMFCC b p) = Inr d \<longrightarrow> distinct (map fst d))
   \<and> (list_all2 (\<lambda>x dx. definition' x = Inr dx) es ds \<longrightarrow>
        definition' (YaafeCompound b es) = Inr (concat ds)
        \<and> (distinct (map fst (concat ds)) \<longleftrightarrow>
             (\<forall>i<length ds. distinct (map fst (ds ! i)))
             \<and> (\<forall>i<length ds. \<forall>j<length ds. i \<noteq> j \<longrightarrow>
                  fst ` set (ds ! i) \<inter> fst ` set (ds ! j) = {})))"
proof -
  have zcr: "distinct (map fst d)" if "definition' (YaafeZCR b) = Inr d"
    using that by (auto split: option.splits simp: Let_def)
  have mfcc: "distinct (map fst d)" if "definition' (YaafeMFCC b p) = Inr d"
    using that by (auto split: option.splits simp: Let_def)
  have comp: "definition' (YaafeCompound b es) = Inr (concat ds)
        \<and> (distinct (map fst (concat ds)) \<longleftrightarrow>
             (\<forall>i<length ds. distinct (map fst (ds ! i)))
             \<and> (\<forall>i<length ds. \<forall>j<length ds. i \<noteq> j \<longrightarrow>
                  fst ` set (ds ! i) \<inter> fst ` set (ds ! j) = {}))"
    if h: "list_all2 (\<lambda>x dx. definition' x = Inr dx) es ds"
  proof -
    from h have "definition' (YaafeCompound b es) = Inr (concat ds)"
      using compound_definition_iff [of b es "concat ds"] by blast
    moreover have "map fst (concat ds) = concat (map (map fst) ds)"
      by (simp add: map_concat)
    ultimately show ?thesis
      using distinct_concat_nth [of "map (map fst) ds"] by simp
  qed
  from zcr mfcc comp show ?thesis by blast
qed

theorem unique_names_amended_witness:
  "definition' zcr_mfcc =
       Inr [(''zcr'', ''ZCR blockSize=400 stepSize=160''),
            (''mfcc'', ''MFCC CepsIgnoreFirstCoeff=0 CepsNbCoeffs=12 blockSize=400 stepSize=160'')]
   \<and> distinct [''zcr'', ''mfcc'']
   \<and> distinct (map fst [(''zcr'', ''ZCR blockSize=400 stepSize=160'')])"
proof -
  let ?dz = "[(''zcr'', ''ZCR blockSize=400 stepSize=160'')]"
  let ?dm = "[(''mfcc'', ''MFCC CepsIgnoreFirstCoeff=0 CepsNbCoeffs=12 blockSize=400 stepSize=160'')]"
  let ?es = "[YaafeZCR (seen 16000), YaafeMFCC (seen 16000) default_mfcc]"
  have all: "list_all2 (\<lambda>x dx. definition' x = Inr dx) ?es [?dz, ?dm]"
    using zcr_seen_16000 mfcc_seen_16000 by simp
  show ?thesis
    using unique_names_amended
      [where b = "seen 16000" and d = ?dz and p = default_mfcc and es = ?es
         and ds = "[?dz, ?dm]"]
      all zcr_seen_16000
    unfolding zcr_mfcc_def definition'.simps(3) list.map zcr_seen_16000 mfcc_seen_16000
    by simp
qed

section \<open>Block size and step size\<close>




section \<open>Before the first extraction\<close>

text \<open>
  Claim C10, as stated: on a recipe that has made no extraction call, \<open>definition\<close> and
  the hash raise. It fails on a compound of no children, fresh from its constructor:
  its definition is the empty list and its hash is the hash of the empty tuple.
\<close>

theorem fresh_definition_counterexample:
  "YaafeCompound_init [] default_duration default_step = Inr empty_compound
   \<and> sample_rate' (attrs empty_compound) = None
   \<and> definition' empty_compound = Inr []
   \<and> YaafeCompound_hash (attrs empty_compound) [] = Inr (HashOfTuple [])"
  by (simp add: YaafeCompound_init_def empty_compound_def YaafeCompound_hash_def
      YaafeFeatureExtractor_init_def)

text \<open>
  Claim C10, amended. On a ZCR or MFCC recipe whose sample rate attribute was never
  assigned, \<open>definition\<close> raises \<open>AttributeError\<close>. The definition and the hash of a
  compound do not read the compound's own attribute: they raise exactly when the
  definition of some child raises, and return, the hash being that of the definition,
  exactly when the definition of every child returns.
\<close>

theorem fresh_definition_amended:
  "(sample_rate' b = None \<longrightarrow>
      definition' (YaafeZCR b) = Inl AttributeError
      \<and> definition' (YaafeMFCC b p) = Inl AttributeError)
   \<and> (definition' (YaafeCompound b es) = Inl AttributeError \<longleftrightarrow>
        (\<exists>x\<in>set es. definition' x = Inl AttributeError))
   \<and> (YaafeCompound_hash b es = Inl AttributeError \<longleftrightarrow>
        (\<exists>x\<in>set es. definition' x = Inl AttributeError))
   \<and> ((\<forall>x\<in>set es. \<exists>dx. definition' x = Inr dx) \<longleftrightarrow>
        (\<exists>d. definition' (YaafeCompound b es) = Inr d
           \<and> YaafeCompound_hash b es = Inr (HashOfTuple d)))"
proof -
  have leaf: "definition' (YaafeZCR b) = Inl AttributeError
      \<and> definition' (YaafeMFCC b p) = Inl AttributeError" if "sample_rate' b = None"
    using that by simp
  have hash: "YaafeCompound_hash b es = Inl AttributeError \<longleftrightarrow>
      definition' (YaafeCompound b es) = Inl AttributeError"
    unfolding YaafeCompound_hash_def by (auto split: sum.splits)
  have hash_ok: "definition' (YaafeCompound b es) = Inr d \<Longrightarrow>
      YaafeCompound_hash b es = Inr (HashOfTuple d)" for d
    unfolding YaafeCompound_hash_def by simp
  have ok: "(\<forall>x\<in>set es. \<exists>dx. definition' x = Inr dx) \<longleftrightarrow>
      (\<exists>d. definition' (YaafeCompound b es) = Inr d)"
  proof
    assume all: "\<forall>x\<in>set es. \<exists>dx. definition' x = Inr dx"
    then have "\<not> (\<exists>x\<in>set es. definition' x = Inl AttributeError)"
      by auto
    then have "definition' (YaafeCompound b es) \<noteq> Inl AttributeError"
      using compound_raises_iff [of b es] by blast
    then show "\<exists>d. definition' (YaafeCompound b es) = Inr d"
      using definition_cases [of "YaafeCompound b es"] by blast
  next
    assume "\<exists>d. definition' (YaafeCompound b es) = Inr d"
    then have "\<not> (\<exists>x\<in>set es. definition' x = Inl AttributeError)"
      using compound_raises_iff [of b es] by auto
    then show "\<forall>x\<in>set es. \<exists>dx. definition' x = Inr dx"
      using definition_cases by blast
  qed
  from leaf hash hash_ok ok compound_raises_iff [of b es] show ?thesis
    by blast
qed

theorem fresh_definition_amended_witness:
  "sample_rate' (YaafeFeatureExtractor_init default_duration default_step) = None
   \<and> definition' (YaafeZCR_init default_duration default_step) = Inl AttributeError
   \<and> definition'
       (YaafeCompound (YaafeFeatureExtractor_init default_duration default_step)
          [YaafeZCR_init default_duration default_step]) = Inl AttributeError
   \<and> YaafeCompound_hash (YaafeFeatureExtractor_init default_duration default_step)
       [YaafeZCR_init default_duration default_step] = Inl AttributeError"
proof -
  have fresh: "sample_rate' (YaafeFeatureExtractor_init default_duration default_step) = None"
    by (simp add: YaafeFeatureExtractor_init_def)
  show ?thesis
    using fresh fresh_definition_amended
      [where b = "YaafeFeatureExtractor_init default_duration default_step"
         and es = "[YaafeZCR_init default_duration default_step]"]
    by (simp add: YaafeZCR_init_def del: definition'.simps)
qed

section \<open>Construction of a compound\<close>

text \<open>
  Claim C8, as stated: a compound of children that agree on duration and step is
  constructed. It fails on two children of duration 50 ms and step 20 ms, which agree
  with each other, when the compound is given its default duration and step: the
  constructor raises.
\<close>

theorem compound_init_counterexample:
  "YaafeCompound_init [YaafeZCR_init (to_double (1 / 20)) (to_double (1 / 50)), YaafeMFCC_init (to_double (1 / 20)) (to_double (1 / 50)) default_mfcc]
       default_duration default_step
     = Inl (AssertionError DurationMismatch)
   \<and> duration (attrs (YaafeZCR_init (to_double (1 / 20)) (to_double (1 / 50))))
       = duration (attrs (YaafeMFCC_init (to_double (1 / 20)) (to_double (1 / 50)) default_mfcc))
   \<and> step (attrs (YaafeZCR_init (to_double (1 / 20)) (to_double (1 / 50))))
       = step (attrs (YaafeMFCC_init (to_double (1 / 20)) (to_double (1 / 50)) default_mfcc))"
  by (simp add: YaafeCompound_init_def YaafeZCR_init_def YaafeMFCC_init_def
      YaafeFeatureExtractor_init_def other_values)

text \<open>
  Claim C8, amended. The constructor of a compound succeeds exactly when every child has
  the duration and the step that the compound itself is given (25 ms and 10 ms unless
  stated), and raises an assertion error otherwise; so it raises whenever two children
  differ in duration or in step. An extraction call never raises either of these two
  assertion errors.
\<close>

theorem compound_init_amended:
  "(YaafeCompound_init es dur stp = Inr (YaafeCompound (YaafeFeatureExtractor_init dur stp) es)
      \<longleftrightarrow> (\<forall>x\<in>set es. duration (attrs x) = dur \<and> step (attrs x) = stp))
   \<and> ((\<exists>x\<in>set es. duration (attrs x) \<noteq> dur \<or> step (attrs x) \<noteq> stp) \<longleftrightarrow>
        YaafeCompound_init es dur stp = Inl (AssertionError DurationMismatch)
        \<or> YaafeCompound_init es dur stp = Inl (AssertionError StepMismatch))
   \<and> ((\<exists>x\<in>set es. \<exists>y\<in>set es.
          duration (attrs x) \<noteq> duration (attrs y) \<or> step (attrs x) \<noteq> step (attrs y)) \<longrightarrow>
        YaafeCompound_init es dur stp = Inl (AssertionError DurationMismatch)
        \<or> YaafeCompound_init es dur stp = Inl (AssertionError StepMismatch))
   \<and> returned (call en x it) \<noteq> Inl (AssertionError DurationMismatch)
   \<and> returned (call en x it) \<noteq> Inl (AssertionError StepMismatch)"
proof -
  have init: "YaafeCompound_init es dur stp =
      (if \<exists>x\<in>set es. duration (attrs x) \<noteq> dur then Inl (AssertionError DurationMismatch)
       else if \<exists>x\<in>set es. step (attrs x) \<noteq> stp then Inl (AssertionError StepMismatch)
       else Inr (YaafeCompound (YaafeFeatureExtractor_init dur stp) es))"
    by (simp add: YaafeCompound_init_def list_all_iff)
  have c1: "YaafeCompound_init es dur stp = Inr (YaafeCompound (YaafeFeatureExtractor_init dur stp) es)
      \<longleftrightarrow> (\<forall>x\<in>set es. duration (attrs x) = dur \<and> step (attrs x) = stp)"
    unfolding init by auto
  have c2: "(\<exists>x\<in>set es. duration (attrs x) \<noteq> dur \<or> step (attrs x) \<noteq> stp) \<longleftrightarrow>
        YaafeCompound_init es dur stp = Inl (AssertionError DurationMismatch)
        \<or> YaafeCompound_init es dur stp = Inl (AssertionError StepMismatch)"
    unfolding init by auto
  have c3: "YaafeCompound_init es dur stp = Inl (AssertionError DurationMismatch)
        \<or> YaafeCompound_init es dur stp = Inl (AssertionError StepMismatch)"
    if "\<exists>x\<in>set es. \<exists>y\<in>set es.
          duration (attrs x) \<noteq> duration (attrs y) \<or> step (attrs x) \<noteq> step (attrs y)"
  proof -
    from that have "\<exists>x\<in>set es. duration (attrs x) \<noteq> dur \<or> step (attrs x) \<noteq> stp"
      by metis
    with c2 show ?thesis by blast
  qed
  have c4: "returned (call en x it) \<noteq> Inl (AssertionError DurationMismatch)"
    using call_error [of en x it "AssertionError DurationMismatch"] by auto
  have c5: "returned (call en x it) \<noteq> Inl (AssertionError StepMismatch)"
    using call_error [of en x it "AssertionError StepMismatch"] by auto
  from c1 c2 c3 c4 c5 show ?thesis by blast
qed

theorem compound_init_amended_witness:
  "YaafeCompound_init [YaafeZCR (seen 16000), YaafeMFCC (seen 16000) default_mfcc]
       default_duration default_step = Inr zcr_mfcc
   \<and> (YaafeCompound_init [YaafeZCR (seen 16000), YaafeZCR_init default_duration (to_double (1 / 50))]
         default_duration default_step = Inl (AssertionError DurationMismatch)
       \<or> YaafeCompound_init [YaafeZCR (seen 16000), YaafeZCR_init default_duration (to_double (1 / 50))]
         default_duration default_step = Inl (AssertionError StepMismatch))"
proof -
  have ok: "\<forall>x\<in>set [YaafeZCR (seen 16000), YaafeMFCC (seen 16000) default_mfcc].
      duration (attrs x) = default_duration \<and> step (attrs x) = default_step"
    by simp
  have "step (attrs (YaafeZCR (seen 16000)))
      \<noteq> step (attrs (YaafeZCR_init default_duration (to_double (1 / 50))))"
    using other_values by (simp add: YaafeZCR_init_def YaafeFeatureExtractor_init_def)
  then have differ: "\<exists>x\<in>set [YaafeZCR (seen 16000), YaafeZCR_init default_duration (to_double (1 / 50))].
      \<exists>y\<in>set [YaafeZCR (seen 16000), YaafeZCR_init default_duration (to_double (1 / 50))].
        duration (attrs x) \<noteq> duration (attrs y) \<or> step (attrs x) \<noteq> step (attrs y)"
    by (meson list.set_intros)
  show ?thesis
    using ok differ
      compound_init_amended
        [where es = "[YaafeZCR (seen 16000), YaafeMFCC (seen 16000) default_mfcc]"
           and dur = default_duration and stp = default_step]
      compound_init_amended
        [where es = "[YaafeZCR (seen 16000), YaafeZCR_init default_duration (to_double (1 / 50))]"
           and dur = default_duration and stp = default_step]
    unfolding zcr_mfcc_def by blast
qed

section \<open>Channel selection\<close>




section \<open>NaN in the features\<close>

text \<open>
  Claim C4. When the call reaches the stacked features and they hold a NaN, it does not
  raise: it emits exactly one warning, whose message holds the identifier of the item,
  and returns the features, NaN included, with the sliding window of the extractor.
\<close>

theorem nan_warning:
  "load en it = Inr (y, sr) \<Longrightarrow> configure en x sr = (Inr (), x1) \<Longrightarrow>
   select_channel y it = Inr y1 \<Longrightarrow> assemble en x1 y1 = Inr d \<Longrightarrow> has_nan d \<Longrightarrow>
   call en x it =
     \<lparr>returned = Inr \<lparr>data = d, sliding_window = sliding_window' (attrs x)\<rparr>,
      warnings = [nan_message (get_unique_identifier en it)],
      self_after = x1\<rparr>
   \<and> (\<exists>pre post. nan_message (get_unique_identifier en it)
         = pre @ get_unique_identifier en it @ post)
   \<and> (\<exists>r\<in>set d. NaN \<in> set r)"
proof -
  assume l: "load en it = Inr (y, sr)" and c: "configure en x sr = (Inr (), x1)"
    and s: "select_channel y it = Inr y1" and a: "assemble en x1 y1 = Inr d"
    and n: "has_nan d"
  from c have w: "sliding_window' (attrs x1) = sliding_window' (attrs x)"
    by (rule configure_window)
  from l c s a n w have "call en x it =
     \<lparr>returned = Inr \<lparr>data = d, sliding_window = sliding_window' (attrs x)\<rparr>,
      warnings = [nan_message (get_unique_identifier en it)],
      self_after = x1\<rparr>"
    by (simp add: call_def)
  moreover have "\<exists>pre post. nan_message (get_unique_identifier en it)
         = pre @ get_unique_identifier en it @ post"
    unfolding nan_message_def by (metis append.assoc)
  moreover from n have "\<exists>r\<in>set d. NaN \<in> set r"
    by (simp add: has_nan_iff)
  ultimately show ?thesis
    by blast
qed

theorem nan_warning_witness:
  "has_nan [[Num 0], [NaN]]
   \<and> call echo_env fresh_zcr nan_item =
       \<lparr>returned = Inr \<lparr>data = [[Num 0], [NaN]],
                        sliding_window = sliding_window' (attrs fresh_zcr)\<rparr>,
        warnings = [nan_message ''nan''],
        self_after = loaded_zcr\<rparr>"
proof -
  have s: "select_channel (Array1 [Num 0, NaN]) nan_item = Inr [Num 0, NaN]"
    by (simp add: select_channel_def nan_item_def column_def)
  have a: "assemble echo_env loaded_zcr [Num 0, NaN] = Inr [[Num 0], [NaN]]"
    by (simp add: assemble_echo)
  have n: "has_nan [[Num 0], [NaN]]"
    by (simp add: has_nan_def)
  have u: "get_unique_identifier echo_env nan_item = ''nan''"
    by (simp add: echo_env_def nan_item_def)
  from nan_warning [OF load_nan fresh_zcr_configure s a n] n u show ?thesis
    by simp
qed

end
